theory Spec2Isabelle
  imports Complex_Main
begin

unbundle bit_operations_syntax

section \<open>The MCP23S17 matrix controller (mcp23s17\_controller.py)\<close>

text \<open>
  A shallow embedding of the classes \<open>MCP23S17\<close> and \<open>MatrixController\<close>.
  Python integers are \<open>int\<close>, the port names are strings, durations (Python floats
  that are only compared with zero by \<open>time.sleep\<close> and otherwise passed on) are
  \<open>real\<close>. A method becomes a function from the object to a pair of its outcome
  (\<open>Inl\<close> an exception, \<open>Inr\<close> the returned value) and the object as the call leaves
  it: an exception does not undo the assignments made before it was raised.
\<close>

subsection \<open>Register table\<close>

datatype MCP23S17Register =
    IODIRA | IODIRB | IPOLA | IPOLB | GPINTENA | GPINTENB | DEFVALA | DEFVALB
  | INTCONA | INTCONB | IOCONA | IOCONB | GPPUA | GPPUB | INTFA | INTFB
  | INTCAPA | INTCAPB | GPIOA | GPIOB | OLATA | OLATB

fun reg_value :: "MCP23S17Register \<Rightarrow> int" where
  "reg_value IODIRA = 0x00"
| "reg_value IODIRB = 0x01"
| "reg_value IPOLA = 0x02"
| "reg_value IPOLB = 0x03"
| "reg_value GPINTENA = 0x04"
| "reg_value GPINTENB = 0x05"
| "reg_value DEFVALA = 0x06"
| "reg_value DEFVALB = 0x07"
| "reg_value INTCONA = 0x08"
| "reg_value INTCONB = 0x09"
| "reg_value IOCONA = 0x0A"
| "reg_value IOCONB = 0x0B"
| "reg_value GPPUA = 0x0C"
| "reg_value GPPUB = 0x0D"
| "reg_value INTFA = 0x0E"
| "reg_value INTFB = 0x0F"
| "reg_value INTCAPA = 0x10"
| "reg_value INTCAPB = 0x11"
| "reg_value GPIOA = 0x12"
| "reg_value GPIOB = 0x13"
| "reg_value OLATA = 0x14"
| "reg_value OLATB = 0x15"

subsection \<open>Exceptions and results\<close>

text \<open>
  \<open>ValueError\<close> is what the argument checks (and \<open>time.sleep\<close> on a negative
  length) raise, \<open>IndexError\<close> what \<open>result[2]\<close> raises on a short list, and
  \<open>TransportError\<close> stands for whatever the SPI handle raises.
\<close>

datatype error = ValueError | IndexError | TransportError

type_synonym 'a result = "error + 'a"

text \<open>
  Sequencing of two statements: when the first raises, the second is skipped and the
  object stays as the first left it.
\<close>

definition then_do ::
  "'a result \<times> 's \<Rightarrow> ('a \<Rightarrow> 's \<Rightarrow> 'b result \<times> 's) \<Rightarrow> 'b result \<times> 's" where
  "then_do r f = (case r of (Inl e, s) \<Rightarrow> (Inl e, s) | (Inr x, s) \<Rightarrow> f x s)"

subsection \<open>The environment: the SPI handle and the clock\<close>

text \<open>
  \<open>spidev.SpiDev\<close> is an external library. Its handle is modelled by what the
  controller can observe of it: whether it is open, a script of the outcomes of the
  coming calls (\<open>True\<close>: the call raises; an exhausted script: the call goes through),
  the register file of the chip behind it (a write frame \<open>[command, address, data]\<close>
  that goes through stores \<open>data\<close> at \<open>address\<close>), and the bytes the chip clocks back
  for a full-duplex frame. A call on a closed handle raises.
\<close>

record spidev =
  is_open :: bool
  script :: "bool list"
  regs :: "int \<Rightarrow> int"
  reply :: "int list \<Rightarrow> int list"

definition next_fault :: "spidev \<Rightarrow> bool" where
  "next_fault h = (case script h of [] \<Rightarrow> False | b # _ \<Rightarrow> b)"

definition spi_writebytes :: "spidev \<Rightarrow> int list \<Rightarrow> unit result \<times> spidev" where
  "spi_writebytes h frame =
     (if is_open h \<and> \<not> next_fault h
      then (Inr (), h\<lparr>script := tl (script h),
                       regs := (case frame of
                                  [c, a, d] \<Rightarrow> (regs h)(a := d)
                                | _ \<Rightarrow> regs h)\<rparr>)
      else (Inl TransportError, h\<lparr>script := tl (script h)\<rparr>))"

definition spi_xfer2 :: "spidev \<Rightarrow> int list \<Rightarrow> int list result \<times> spidev" where
  "spi_xfer2 h frame =
     (if is_open h \<and> \<not> next_fault h
      then (Inr (reply h frame), h\<lparr>script := tl (script h)\<rparr>)
      else (Inl TransportError, h\<lparr>script := tl (script h)\<rparr>))"

text \<open>Closing a closed handle does nothing; closing an open one may raise.\<close>

definition spi_close :: "spidev \<Rightarrow> unit result \<times> spidev" where
  "spi_close h =
     (if is_open h \<and> next_fault h
      then (Inl TransportError, h\<lparr>script := tl (script h)\<rparr>)
      else (Inr (), h\<lparr>is_open := False, script := tl (script h)\<rparr>))"

text \<open>
  What the process does to the outside, in program order: every call on the SPI handle
  (whether or not it then raises) and every completed \<open>time.sleep\<close>.
\<close>

datatype event = Writebytes "int list" | Xfer2 "int list" | Close | Sleep real

subsection \<open>class MCP23S17\<close>

text \<open>
  The fields that the methods read after construction (\<open>bus\<close>, \<open>device\<close>,
  \<open>speed_hz\<close> and \<open>pin_configs\<close> are only stored), and \<open>trace\<close>, the history
  of events so far (not a field of the Python object: it records what the methods did).
\<close>

record mcp23s17 =
  spi :: spidev
  chip_select :: int
  port_a_state :: int
  port_b_state :: int
  trace :: "event list"

text \<open>\<open>time.sleep(d)\<close> raises \<open>ValueError\<close> for a negative length.\<close>

definition time_sleep :: "mcp23s17 \<Rightarrow> real \<Rightarrow> unit result \<times> mcp23s17" where
  "time_sleep s d =
     (if d < 0 then (Inl ValueError, s)
      else (Inr (), s\<lparr>trace := trace s @ [Sleep d]\<rparr>))"

text \<open>
  \<open>str.upper\<close>, on the ASCII letters. The methods use it only to compare the result
  with \<open>'A'\<close> and \<open>'B'\<close>, and a string with any other character has neither as its
  upper case.
\<close>

definition upper_char :: "char \<Rightarrow> char" where
  "upper_char c =
     (let n = (of_char c :: nat)
      in if 97 \<le> n \<and> n \<le> 122 then char_of (n - 32) else c)"

definition upper :: "string \<Rightarrow> string" where
  "upper p = map upper_char p"

definition build_command :: "mcp23s17 \<Rightarrow> int \<Rightarrow> int \<Rightarrow> int \<times> int" where
  "build_command s opcode address =
     (let command = (0x40 OR push_bit 1 (chip_select s)) OR opcode
      in (command, address))"

definition write_register ::
  "mcp23s17 \<Rightarrow> MCP23S17Register \<Rightarrow> int \<Rightarrow> unit result \<times> mcp23s17" where
  "write_register s register data =
     (case build_command s 0 (reg_value register) of
        (command, address) \<Rightarrow>
          (case spi_writebytes (spi s) [command, address, data] of
             (r, h) \<Rightarrow>
               (r, s\<lparr>spi := h,
                      trace := trace s @ [Writebytes [command, address, data]]\<rparr>)))"

definition read_register ::
  "mcp23s17 \<Rightarrow> MCP23S17Register \<Rightarrow> int result \<times> mcp23s17" where
  "read_register s register =
     (case build_command s 1 (reg_value register) of
        (command, address) \<Rightarrow>
          (case spi_xfer2 (spi s) [command, address, 0x00] of
             (r, h) \<Rightarrow>
               (let s' = s\<lparr>spi := h,
                            trace := trace s @ [Xfer2 [command, address, 0x00]]\<rparr>
                in case r of
                     Inl e \<Rightarrow> (Inl e, s')
                   | Inr result \<Rightarrow>
                       (if 2 < length result then (Inr (result ! 2), s')
                        else (Inl IndexError, s')))))"

definition initialize_chip :: "mcp23s17 \<Rightarrow> unit result \<times> mcp23s17" where
  "initialize_chip s =
     then_do (write_register s IODIRA 0x00) (\<lambda>_ s.
     then_do (write_register s IODIRB 0x00) (\<lambda>_ s.
     then_do (write_register s GPPUA 0x00) (\<lambda>_ s.
     then_do (write_register s GPPUB 0x00) (\<lambda>_ s.
     then_do (write_register s GPIOA 0x00) (\<lambda>_ s.
     then_do (write_register s GPIOB 0x00) (\<lambda>_ s.
       (Inr (), s\<lparr>port_a_state := 0x00, port_b_state := 0x00\<rparr>)))))))"

definition set_pin_high :: "mcp23s17 \<Rightarrow> string \<Rightarrow> int \<Rightarrow> unit result \<times> mcp23s17" where
  "set_pin_high s port pin =
     (if upper port \<notin> set [''A'', ''B''] then (Inl ValueError, s)
      else if \<not> (0 \<le> pin \<and> pin \<le> 7) then (Inl ValueError, s)
      else if upper port = ''A''
      then (let s' = s\<lparr>port_a_state := port_a_state s OR push_bit (nat pin) 1\<rparr>
            in write_register s' GPIOA (port_a_state s'))
      else (let s' = s\<lparr>port_b_state := port_b_state s OR push_bit (nat pin) 1\<rparr>
            in write_register s' GPIOB (port_b_state s')))"

definition set_pin_low :: "mcp23s17 \<Rightarrow> string \<Rightarrow> int \<Rightarrow> unit result \<times> mcp23s17" where
  "set_pin_low s port pin =
     (if upper port \<notin> set [''A'', ''B''] then (Inl ValueError, s)
      else if \<not> (0 \<le> pin \<and> pin \<le> 7) then (Inl ValueError, s)
      else if upper port = ''A''
      then (let s' = s\<lparr>port_a_state := port_a_state s AND NOT (push_bit (nat pin) 1)\<rparr>
            in write_register s' GPIOA (port_a_state s'))
      else (let s' = s\<lparr>port_b_state := port_b_state s AND NOT (push_bit (nat pin) 1)\<rparr>
            in write_register s' GPIOB (port_b_state s')))"

definition toggle_pin :: "mcp23s17 \<Rightarrow> string \<Rightarrow> int \<Rightarrow> bool result \<times> mcp23s17" where
  "toggle_pin s port pin =
     (if upper port \<notin> set [''A'', ''B''] then (Inl ValueError, s)
      else if \<not> (0 \<le> pin \<and> pin \<le> 7) then (Inl ValueError, s)
      else if upper port = ''A''
      then (let is_high = (port_a_state s AND push_bit (nat pin) 1 \<noteq> 0)
            in then_do (if is_high then set_pin_low s (upper port) pin
                        else set_pin_high s (upper port) pin)
                 (\<lambda>_ s'. (Inr (\<not> is_high), s')))
      else (let is_high = (port_b_state s AND push_bit (nat pin) 1 \<noteq> 0)
            in then_do (if is_high then set_pin_low s (upper port) pin
                        else set_pin_high s (upper port) pin)
                 (\<lambda>_ s'. (Inr (\<not> is_high), s'))))"

definition set_port :: "mcp23s17 \<Rightarrow> string \<Rightarrow> int \<Rightarrow> unit result \<times> mcp23s17" where
  "set_port s port v =
     (if upper port \<notin> set [''A'', ''B''] then (Inl ValueError, s)
      else if \<not> (0 \<le> v \<and> v \<le> 0xFF) then (Inl ValueError, s)
      else if upper port = ''A''
      then write_register (s\<lparr>port_a_state := v\<rparr>) GPIOA v
      else write_register (s\<lparr>port_b_state := v\<rparr>) GPIOB v)"

definition get_port_state :: "mcp23s17 \<Rightarrow> string \<Rightarrow> int result \<times> mcp23s17" where
  "get_port_state s port =
     (if upper port \<notin> set [''A'', ''B''] then (Inl ValueError, s)
      else if upper port = ''A'' then (Inr (port_a_state s), s)
      else (Inr (port_b_state s), s))"

definition pulse_pin :: "mcp23s17 \<Rightarrow> string \<Rightarrow> int \<Rightarrow> real \<Rightarrow> unit result \<times> mcp23s17" where
  "pulse_pin s port pin duration =
     then_do (set_pin_high s port pin) (\<lambda>_ s.
     then_do (time_sleep s duration) (\<lambda>_ s.
       set_pin_low s port pin))"

definition pulse_row_column ::
  "mcp23s17 \<Rightarrow> int \<Rightarrow> int \<Rightarrow> string \<Rightarrow> string \<Rightarrow> real \<Rightarrow> unit result \<times> mcp23s17" where
  "pulse_row_column s row col row_port col_port duration =
     then_do (set_pin_high s row_port row) (\<lambda>_ s.
     then_do (set_pin_high s col_port col) (\<lambda>_ s.
     then_do (time_sleep s duration) (\<lambda>_ s.
     then_do (set_pin_low s row_port row) (\<lambda>_ s.
       set_pin_low s col_port col))))"

text \<open>
  The loop of \<open>matrix_sequence\<close> over \<open>enumerate(sequence)\<close>; \<open>n\<close> is
  \<open>len(sequence)\<close>.
\<close>

fun matrix_sequence_loop ::
  "mcp23s17 \<Rightarrow> nat \<Rightarrow> (nat \<times> int \<times> int) list \<Rightarrow> string \<Rightarrow> string \<Rightarrow> real \<Rightarrow> real
     \<Rightarrow> unit result \<times> mcp23s17" where
  "matrix_sequence_loop s n [] row_port col_port duration interval = (Inr (), s)"
| "matrix_sequence_loop s n ((i, row, col) # rest) row_port col_port duration interval =
     then_do (pulse_row_column s row col row_port col_port duration) (\<lambda>_ s.
     then_do (if int i < int n - 1 then time_sleep s interval else (Inr (), s)) (\<lambda>_ s.
       matrix_sequence_loop s n rest row_port col_port duration interval))"

definition matrix_sequence ::
  "mcp23s17 \<Rightarrow> (int \<times> int) list \<Rightarrow> string \<Rightarrow> string \<Rightarrow> real \<Rightarrow> real
     \<Rightarrow> unit result \<times> mcp23s17" where
  "matrix_sequence s sequence row_port col_port duration interval =
     matrix_sequence_loop s (length sequence) (enumerate 0 sequence)
       row_port col_port duration interval"

definition read_port_input :: "mcp23s17 \<Rightarrow> string \<Rightarrow> int result \<times> mcp23s17" where
  "read_port_input s port =
     (if upper port \<notin> set [''A'', ''B''] then (Inl ValueError, s)
      else if upper port = ''A'' then read_register s GPIOA
      else read_register s GPIOB)"

definition configure_pin_mode ::
  "mcp23s17 \<Rightarrow> string \<Rightarrow> int \<Rightarrow> bool \<Rightarrow> unit result \<times> mcp23s17" where
  "configure_pin_mode s port pin is_output =
     (if upper port \<notin> set [''A'', ''B''] then (Inl ValueError, s)
      else if \<not> (0 \<le> pin \<and> pin \<le> 7) then (Inl ValueError, s)
      else (let register = (if upper port = ''A'' then IODIRA else IODIRB)
            in then_do (read_register s register) (\<lambda>current s.
                 write_register s register
                   (if is_output then current AND NOT (push_bit (nat pin) 1)
                    else current OR push_bit (nat pin) 1))))"

text \<open>
  \<open>cleanup\<close>: the body of the \<open>try\<close> stops at the first call that raises, and the
  handler only logs, so the method itself always returns.
\<close>

definition cleanup_body :: "mcp23s17 \<Rightarrow> unit result \<times> mcp23s17" where
  "cleanup_body s =
     then_do (write_register s GPIOA 0x00) (\<lambda>_ s.
     then_do (write_register s GPIOB 0x00) (\<lambda>_ s.
       (case spi_close (spi s) of
          (r, h) \<Rightarrow> (r, s\<lparr>spi := h, trace := trace s @ [Close]\<rparr>))))"

definition cleanup :: "mcp23s17 \<Rightarrow> unit result \<times> mcp23s17" where
  "cleanup s = (case cleanup_body s of (_, s') \<Rightarrow> (Inr (), s'))"

subsection \<open>class MatrixController\<close>

record matrix_controller =
  num_rows :: int
  num_cols :: int
  row_port :: string
  col_port :: string
  mcp :: mcp23s17

definition press_button ::
  "matrix_controller \<Rightarrow> int \<Rightarrow> int \<Rightarrow> real \<Rightarrow> unit result \<times> matrix_controller" where
  "press_button m row col duration =
     (if \<not> ((0 \<le> row \<and> row < num_rows m) \<and> (0 \<le> col \<and> col < num_cols m))
      then (Inl ValueError, m)
      else (case pulse_row_column (mcp m) row col (row_port m) (col_port m) duration of
              (r, s) \<Rightarrow> (r, m\<lparr>mcp := s\<rparr>)))"

definition press_sequence ::
  "matrix_controller \<Rightarrow> (int \<times> int) list \<Rightarrow> real \<Rightarrow> real
     \<Rightarrow> unit result \<times> matrix_controller" where
  "press_sequence m buttons duration interval =
     (case matrix_sequence (mcp m) buttons (row_port m) (col_port m) duration interval of
        (r, s) \<Rightarrow> (r, m\<lparr>mcp := s\<rparr>))"

definition controller_cleanup :: "matrix_controller \<Rightarrow> unit result \<times> matrix_controller" where
  "controller_cleanup m = (case cleanup (mcp m) of (r, s) \<Rightarrow> (r, m\<lparr>mcp := s\<rparr>))"

subsection \<open>Vocabulary of the statements\<close>

text \<open>
  The cached byte that \<open>get_port_state\<close> returns for a valid port, the GPIO register
  the pin methods write for it, and the command byte of a write frame.
\<close>

definition shadow :: "mcp23s17 \<Rightarrow> string \<Rightarrow> int" where
  "shadow s port = (if upper port = ''A'' then port_a_state s else port_b_state s)"

definition gpio :: "string \<Rightarrow> MCP23S17Register" where
  "gpio port = (if upper port = ''A'' then GPIOA else GPIOB)"

definition write_command :: "mcp23s17 \<Rightarrow> int" where
  "write_command s = (0x40 OR push_bit 1 (chip_select s)) OR 0"

text \<open>The handle is open and none of its next \<open>k\<close> calls raises.\<close>

definition accepts :: "spidev \<Rightarrow> nat \<Rightarrow> bool" where
  "accepts h k = (is_open h \<and> True \<notin> set (take k (script h)))"





subsection \<open>Concrete objects\<close>

text \<open>
  A handle that is open and never raises, in front of a chip whose registers are all
  zero; the controller object as initialisation leaves it (both caches zero), with an
  empty history; the same object on a handle whose next call raises; an object with
  chip select 1 on a chip that clocks back \<open>[0xFF, 0xFF, 0x5A]\<close>; and a 4x4 matrix
  on ports A (rows) and B (columns), the defaults of \<open>MatrixController\<close>.
\<close>

definition idle_handle :: spidev where
  "idle_handle =
     \<lparr>is_open = True, script = [], regs = (\<lambda>_. 0), reply = (\<lambda>_. [0, 0, 0])\<rparr>"

definition fresh_chip :: mcp23s17 where
  "fresh_chip =
     \<lparr>spi = idle_handle, chip_select = 0, port_a_state = 0x00, port_b_state = 0x00,
      trace = []\<rparr>"

definition faulty_chip :: mcp23s17 where
  "faulty_chip = fresh_chip\<lparr>spi := idle_handle\<lparr>script := [True]\<rparr>\<rparr>"

definition answering_chip :: mcp23s17 where
  "answering_chip =
     fresh_chip\<lparr>chip_select := 1,
                 spi := idle_handle\<lparr>reply := (\<lambda>_. [0xFF, 0xFF, 0x5A])\<rparr>\<rparr>"

definition keypad_4x4 :: matrix_controller where
  "keypad_4x4 =
     \<lparr>num_rows = 4, num_cols = 4, row_port = ''A'', col_port = ''B'', mcp = fresh_chip\<rparr>"

section \<open>Basic facts\<close>

subsection \<open>Port names\<close>

lemma upper_A: "upper ''A'' = ''A''"
  by code_simp

lemma upper_B: "upper ''B'' = ''B''"
  by code_simp

lemma upper_a: "upper ''a'' = ''A''"
  by code_simp

lemma upper_b: "upper ''b'' = ''B''"
  by code_simp

lemmas eval_defs =
  fresh_chip_def idle_handle_def faulty_chip_def keypad_4x4_def
  set_pin_high_def set_pin_low_def toggle_pin_def get_port_state_def
  write_register_def build_command_def spi_writebytes_def next_fault_def
  then_do_def time_sleep_def upper_A upper_B upper_a upper_b

lemmas cleanup_eval =
  cleanup_def cleanup_body_def spi_close_def set_port_def accepts_def shadow_def gpio_def
  write_command_def

lemmas press_eval =
  press_button_def pulse_row_column_def accepts_def gpio_def write_command_def

subsection \<open>Initialisation\<close>

text \<open>
  Whatever the caches held, \<open>_initialize_chip\<close> on the idle handle makes its six
  writes and leaves both caches at zero: the state of \<open>fresh_chip\<close>.
\<close>

lemma initialize_chip_fresh:
  "fst (initialize_chip (fresh_chip\<lparr>port_a_state := a, port_b_state := b\<rparr>)) = Inr ()
   \<and> port_a_state (snd (initialize_chip (fresh_chip\<lparr>port_a_state := a, port_b_state := b\<rparr>)))
       = port_a_state fresh_chip
   \<and> port_b_state (snd (initialize_chip (fresh_chip\<lparr>port_a_state := a, port_b_state := b\<rparr>)))
       = port_b_state fresh_chip
   \<and> spi (snd (initialize_chip (fresh_chip\<lparr>port_a_state := a, port_b_state := b\<rparr>)))
       = spi fresh_chip
   \<and> trace (snd (initialize_chip (fresh_chip\<lparr>port_a_state := a, port_b_state := b\<rparr>))) =
       [Writebytes [0x40, 0x00, 0x00], Writebytes [0x40, 0x01, 0x00],
        Writebytes [0x40, 0x0C, 0x00], Writebytes [0x40, 0x0D, 0x00],
        Writebytes [0x40, 0x12, 0x00], Writebytes [0x40, 0x13, 0x00]]"
  by (simp add: initialize_chip_def eval_defs fun_eq_iff)

subsection \<open>Bits of a port byte\<close>

lemma bit_set_pin: "bit (x OR push_bit n (1::int)) n"
  by (simp add: bit_or_iff bit_exp_iff)

lemma bit_clear_pin: "\<not> bit (x AND NOT (push_bit n (1::int))) n"
  by (simp add: bit_and_iff bit_not_iff bit_exp_iff)

lemma set_then_clear:
  "\<not> bit x n \<Longrightarrow> (x OR push_bit n (1::int)) AND NOT (push_bit n 1) = x"
  by (rule bit_eqI) (auto simp: bit_and_iff bit_or_iff bit_not_iff bit_exp_iff)

lemma clear_then_set:
  "bit x n \<Longrightarrow> (x AND NOT (push_bit n (1::int))) OR push_bit n 1 = x"
  by (rule bit_eqI) (auto simp: bit_and_iff bit_or_iff bit_not_iff bit_exp_iff)

subsection \<open>The handle\<close>

lemma accepts_Suc: "accepts h (Suc k) \<Longrightarrow> is_open h \<and> \<not> next_fault h"
  by (cases "script h") (auto simp: accepts_def next_fault_def)

lemma accepts_step:
  "accepts h (Suc k) \<Longrightarrow> accepts (h\<lparr>script := tl (script h), regs := r\<rparr>) k"
  by (cases "script h") (auto simp: accepts_def)

lemma accepts_one: "is_open h \<Longrightarrow> \<not> next_fault h \<Longrightarrow> accepts h (Suc 0)"
  by (cases "script h") (simp_all add: accepts_def next_fault_def)

subsection \<open>Register writes\<close>

lemma write_register_trace:
  "trace (snd (write_register s r d)) =
     trace s @ [Writebytes [write_command s, reg_value r, d]]"
  by (simp add: write_register_def build_command_def write_command_def split: prod.splits)

lemma write_register_frame:
  "port_a_state (snd (write_register s r d)) = port_a_state s"
  "port_b_state (snd (write_register s r d)) = port_b_state s"
  "chip_select (snd (write_register s r d)) = chip_select s"
  by (simp_all add: write_register_def build_command_def split: prod.splits)

lemma write_register_ok:
  assumes "is_open (spi s)" "\<not> next_fault (spi s)"
  shows "fst (write_register s r d) = Inr ()"
    and "spi (snd (write_register s r d)) =
           (spi s)\<lparr>script := tl (script (spi s)),
                    regs := (regs (spi s))(reg_value r := d)\<rparr>"
  using assms by (simp_all add: write_register_def build_command_def spi_writebytes_def)

lemma write_register_fail:
  assumes "\<not> (is_open (spi s) \<and> \<not> next_fault (spi s))"
  shows "fst (write_register s r d) = Inl TransportError"
    and "spi (snd (write_register s r d)) = (spi s)\<lparr>script := tl (script (spi s))\<rparr>"
  using assms by (auto simp add: write_register_def build_command_def spi_writebytes_def)

subsection \<open>Pin methods on a valid port and pin\<close>

lemma set_pin_high_unfold:
  assumes "upper port = ''A'' \<or> upper port = ''B''" "0 \<le> pin" "pin \<le> 7"
  shows "set_pin_high s port pin =
    (if upper port = ''A''
     then write_register (s\<lparr>port_a_state := port_a_state s OR push_bit (nat pin) 1\<rparr>) GPIOA
            (port_a_state s OR push_bit (nat pin) 1)
     else write_register (s\<lparr>port_b_state := port_b_state s OR push_bit (nat pin) 1\<rparr>) GPIOB
            (port_b_state s OR push_bit (nat pin) 1))"
  using assms by (auto simp: set_pin_high_def Let_def)

lemma set_pin_low_unfold:
  assumes "upper port = ''A'' \<or> upper port = ''B''" "0 \<le> pin" "pin \<le> 7"
  shows "set_pin_low s port pin =
    (if upper port = ''A''
     then write_register (s\<lparr>port_a_state := port_a_state s AND NOT (push_bit (nat pin) 1)\<rparr>)
            GPIOA (port_a_state s AND NOT (push_bit (nat pin) 1))
     else write_register (s\<lparr>port_b_state := port_b_state s AND NOT (push_bit (nat pin) 1)\<rparr>)
            GPIOB (port_b_state s AND NOT (push_bit (nat pin) 1)))"
  using assms by (auto simp: set_pin_low_def Let_def)

lemma set_pin_high_shadow:
  assumes "upper port = ''A'' \<or> upper port = ''B''" "0 \<le> pin" "pin \<le> 7"
  shows "shadow (snd (set_pin_high s port pin)) port = shadow s port OR push_bit (nat pin) 1"
    and "upper port \<noteq> ''A'' \<Longrightarrow> port_a_state (snd (set_pin_high s port pin)) = port_a_state s"
    and "upper port = ''A'' \<Longrightarrow> port_b_state (snd (set_pin_high s port pin)) = port_b_state s"
    and "chip_select (snd (set_pin_high s port pin)) = chip_select s"
    and "trace (snd (set_pin_high s port pin)) =
           trace s @ [Writebytes [write_command s, reg_value (gpio port),
                                  shadow s port OR push_bit (nat pin) 1]]"
  using assms
  by (auto simp: set_pin_high_unfold shadow_def gpio_def write_register_frame
        write_register_trace write_command_def)

lemma set_pin_low_shadow:
  assumes "upper port = ''A'' \<or> upper port = ''B''" "0 \<le> pin" "pin \<le> 7"
  shows "shadow (snd (set_pin_low s port pin)) port =
           shadow s port AND NOT (push_bit (nat pin) 1)"
    and "upper port \<noteq> ''A'' \<Longrightarrow> port_a_state (snd (set_pin_low s port pin)) = port_a_state s"
    and "upper port = ''A'' \<Longrightarrow> port_b_state (snd (set_pin_low s port pin)) = port_b_state s"
    and "chip_select (snd (set_pin_low s port pin)) = chip_select s"
    and "trace (snd (set_pin_low s port pin)) =
           trace s @ [Writebytes [write_command s, reg_value (gpio port),
                                  shadow s port AND NOT (push_bit (nat pin) 1)]]"
  using assms
  by (auto simp: set_pin_low_unfold shadow_def gpio_def write_register_frame
        write_register_trace write_command_def)

lemma set_pin_high_ok:
  assumes "upper port = ''A'' \<or> upper port = ''B''" "0 \<le> pin" "pin \<le> 7"
    and "accepts (spi s) (Suc k)"
  shows "fst (set_pin_high s port pin) = Inr ()"
    and "accepts (spi (snd (set_pin_high s port pin))) k"
    and "regs (spi (snd (set_pin_high s port pin))) =
           (regs (spi s))(reg_value (gpio port) := shadow s port OR push_bit (nat pin) 1)"
  using assms(1-3) accepts_Suc[OF assms(4)] accepts_step[OF assms(4)]
  by (auto simp: set_pin_high_unfold shadow_def gpio_def write_register_ok)

lemma set_pin_low_ok:
  assumes "upper port = ''A'' \<or> upper port = ''B''" "0 \<le> pin" "pin \<le> 7"
    and "accepts (spi s) (Suc k)"
  shows "fst (set_pin_low s port pin) = Inr ()"
    and "accepts (spi (snd (set_pin_low s port pin))) k"
    and "regs (spi (snd (set_pin_low s port pin))) =
           (regs (spi s))(reg_value (gpio port) :=
              shadow s port AND NOT (push_bit (nat pin) 1))"
  using assms(1-3) accepts_Suc[OF assms(4)] accepts_step[OF assms(4)]
  by (auto simp: set_pin_low_unfold shadow_def gpio_def write_register_ok)

lemma set_pin_high_fail:
  assumes "upper port = ''A'' \<or> upper port = ''B''" "0 \<le> pin" "pin \<le> 7"
    and "\<not> (is_open (spi s) \<and> \<not> next_fault (spi s))"
  shows "fst (set_pin_high s port pin) = Inl TransportError"
    and "regs (spi (snd (set_pin_high s port pin))) = regs (spi s)"
  using assms by (auto simp: set_pin_high_unfold write_register_fail)

lemma set_pin_low_fail:
  assumes "upper port = ''A'' \<or> upper port = ''B''" "0 \<le> pin" "pin \<le> 7"
    and "\<not> (is_open (spi s) \<and> \<not> next_fault (spi s))"
  shows "fst (set_pin_low s port pin) = Inl TransportError"
    and "regs (spi (snd (set_pin_low s port pin))) = regs (spi s)"
  using assms by (auto simp: set_pin_low_unfold write_register_fail)

lemma set_pin_port_cong:
  assumes "upper p = upper q"
  shows "set_pin_high s p pin = set_pin_high s q pin"
    and "set_pin_low s p pin = set_pin_low s q pin"
  by (simp_all add: set_pin_high_def set_pin_low_def assms)

lemma get_port_state_eq:
  "upper port = ''A'' \<or> upper port = ''B'' \<Longrightarrow>
     get_port_state s port = (Inr (shadow s port), s)"
  by (auto simp: get_port_state_def shadow_def)

lemma get_port_state_pure: "snd (get_port_state s port) = s"
  by (simp add: get_port_state_def)

lemma toggle_pin_unfold:
  assumes "upper port = ''A'' \<or> upper port = ''B''" "0 \<le> pin" "pin \<le> 7"
  shows "toggle_pin s port pin =
     (if bit (shadow s port) (nat pin)
      then (case set_pin_low s port pin of
              (Inl e, s') \<Rightarrow> (Inl e, s') | (Inr _, s') \<Rightarrow> (Inr False, s'))
      else (case set_pin_high s port pin of
              (Inl e, s') \<Rightarrow> (Inl e, s') | (Inr _, s') \<Rightarrow> (Inr True, s')))"
proof -
  have u: "upper (upper port) = upper port"
    using assms(1) by (auto simp: upper_A upper_B)
  note c = set_pin_port_cong[OF u]
  show ?thesis
  proof (cases "upper port = ''A''")
    case True
    then show ?thesis
      unfolding toggle_pin_def c using assms(2,3)
      by (cases "bit (shadow s port) (nat pin)")
         (simp_all add: Let_def then_do_def shadow_def and_exp_eq_0_iff_not_bit
            split: prod.splits sum.splits)
  next
    case False
    with assms(1) have "upper port = ''B''" by simp
    then show ?thesis
      unfolding toggle_pin_def c using assms(2,3)
      by (cases "bit (shadow s port) (nat pin)")
         (simp_all add: Let_def then_do_def shadow_def and_exp_eq_0_iff_not_bit
            split: prod.splits sum.splits)
  qed
qed

lemma toggle_pin_step:
  assumes p: "upper port = ''A'' \<or> upper port = ''B''" and r: "0 \<le> pin" "pin \<le> 7"
    and t: "toggle_pin s port pin = (Inr b, s')"
  shows "b = (\<not> bit (shadow s port) (nat pin))"
    and "bit (shadow s' port) (nat pin) = b"
    and "bit (shadow s port) (nat pin) \<Longrightarrow>
           shadow s' port = shadow s port AND NOT (push_bit (nat pin) 1)"
    and "\<not> bit (shadow s port) (nat pin) \<Longrightarrow>
           shadow s' port = shadow s port OR push_bit (nat pin) 1"
    and "upper port \<noteq> ''A'' \<Longrightarrow> port_a_state s' = port_a_state s"
    and "upper port = ''A'' \<Longrightarrow> port_b_state s' = port_b_state s"
proof -
  show b: "b = (\<not> bit (shadow s port) (nat pin))"
    using t by (auto simp: toggle_pin_unfold[OF p r] split: if_splits prod.splits sum.splits)
  have s': "s' = (if bit (shadow s port) (nat pin) then snd (set_pin_low s port pin)
                  else snd (set_pin_high s port pin))"
    using t by (auto simp: toggle_pin_unfold[OF p r] split: if_splits prod.splits sum.splits)
  show "bit (shadow s port) (nat pin) \<Longrightarrow>
          shadow s' port = shadow s port AND NOT (push_bit (nat pin) 1)"
    by (simp only: s' if_True set_pin_low_shadow(1)[OF p r])
  show "\<not> bit (shadow s port) (nat pin) \<Longrightarrow>
          shadow s' port = shadow s port OR push_bit (nat pin) 1"
    by (simp only: s' if_False set_pin_high_shadow(1)[OF p r])
  show "bit (shadow s' port) (nat pin) = b"
    unfolding s' b
    by (cases "bit (shadow s port) (nat pin)")
       (simp_all only: if_True if_False set_pin_low_shadow(1)[OF p r]
          set_pin_high_shadow(1)[OF p r] bit_set_pin bit_clear_pin simp_thms)
  show "upper port \<noteq> ''A'' \<Longrightarrow> port_a_state s' = port_a_state s"
    unfolding s' by (simp add: set_pin_low_shadow(2)[OF p r] set_pin_high_shadow(2)[OF p r])
  show "upper port = ''A'' \<Longrightarrow> port_b_state s' = port_b_state s"
    unfolding s' by (simp add: set_pin_low_shadow(3)[OF p r] set_pin_high_shadow(3)[OF p r])
qed

subsection \<open>Calls that go through\<close>

lemma write_register_run:
  assumes "accepts (spi s) (Suc k)"
  shows "\<exists>s'. write_register s r d = (Inr (), s')
           \<and> accepts (spi s') k
           \<and> regs (spi s') = (regs (spi s))(reg_value r := d)
           \<and> trace s' = trace s @ [Writebytes [write_command s, reg_value r, d]]
           \<and> port_a_state s' = port_a_state s \<and> port_b_state s' = port_b_state s
           \<and> chip_select s' = chip_select s"
proof -
  note o = accepts_Suc[OF assms]
  have "write_register s r d = (fst (write_register s r d), snd (write_register s r d))"
    by simp
  then have "write_register s r d = (Inr (), snd (write_register s r d))"
    using write_register_ok(1)[of s r d] o by simp
  moreover have "accepts (spi (snd (write_register s r d))) k"
    using write_register_ok(2)[of s r d] o accepts_step[OF assms] by simp
  moreover have "regs (spi (snd (write_register s r d))) = (regs (spi s))(reg_value r := d)"
    using write_register_ok(2)[of s r d] o by simp
  ultimately show ?thesis
    using write_register_trace[of s r d] write_register_frame[of s r d] by blast
qed




subsection \<open>The loop of \<open>matrix_sequence\<close>\<close>






subsection \<open>\<open>cleanup\<close>\<close>

lemma cleanup_never_raises: "fst (cleanup s) = Inr ()"
  by (simp add: cleanup_def split: prod.splits)

lemma cleanup_frame:
  "port_a_state (snd (cleanup s)) = port_a_state s"
  "port_b_state (snd (cleanup s)) = port_b_state s"
  "chip_select (snd (cleanup s)) = chip_select s"
  by (auto simp: cleanup_def cleanup_body_def then_do_def write_register_def
        build_command_def split: prod.splits sum.splits)

lemma cleanup_open:
  assumes "accepts (spi s) 3"
  shows "trace (snd (cleanup s)) =
           trace s @ [Writebytes [write_command s, reg_value GPIOA, 0x00],
                      Writebytes [write_command s, reg_value GPIOB, 0x00], Close]"
    and "regs (spi (snd (cleanup s))) =
           (regs (spi s))(reg_value GPIOA := 0, reg_value GPIOB := 0)"
    and "\<not> is_open (spi (snd (cleanup s)))"
proof -
  have a3: "accepts (spi s) (Suc 2)" using assms by (simp add: numeral_3_eq_3)
  from write_register_run[OF a3, of GPIOA 0] obtain s1 where
    1: "write_register s GPIOA 0 = (Inr (), s1)" "accepts (spi s1) 2"
       "regs (spi s1) = (regs (spi s))(reg_value GPIOA := 0)"
       "trace s1 = trace s @ [Writebytes [write_command s, reg_value GPIOA, 0]]"
       "chip_select s1 = chip_select s"
    by blast
  have a2: "accepts (spi s1) (Suc 1)" using 1(2) by (simp add: numeral_2_eq_2)
  from write_register_run[OF a2, of GPIOB 0] obtain s2 where
    2: "write_register s1 GPIOB 0 = (Inr (), s2)" "accepts (spi s2) 1"
       "regs (spi s2) = (regs (spi s1))(reg_value GPIOB := 0)"
       "trace s2 = trace s1 @ [Writebytes [write_command s1, reg_value GPIOB, 0]]"
    by blast
  have a1: "accepts (spi s2) (Suc 0)" using 2(2) by simp
  have c: "spi_close (spi s2) =
             (Inr (), (spi s2)\<lparr>is_open := False, script := tl (script (spi s2))\<rparr>)"
    using accepts_Suc[OF a1] by (simp add: spi_close_def)
  have w: "write_command s1 = write_command s"
    using 1(5) by (simp add: write_command_def)
  have "cleanup s =
          (Inr (), s2\<lparr>spi := (spi s2)\<lparr>is_open := False, script := tl (script (spi s2))\<rparr>,
                      trace := trace s2 @ [Close]\<rparr>)"
    by (simp add: cleanup_def cleanup_body_def then_do_def 1(1) 2(1) c)
  then show "trace (snd (cleanup s)) =
           trace s @ [Writebytes [write_command s, reg_value GPIOA, 0x00],
                      Writebytes [write_command s, reg_value GPIOB, 0x00], Close]"
    and "regs (spi (snd (cleanup s))) =
           (regs (spi s))(reg_value GPIOA := 0, reg_value GPIOB := 0)"
    and "\<not> is_open (spi (snd (cleanup s)))"
    using 1(3,4) 2(3,4) w by simp_all
qed

lemma cleanup_closed:
  assumes "\<not> is_open (spi s)"
  shows "regs (spi (snd (cleanup s))) = regs (spi s)"
    and "\<not> is_open (spi (snd (cleanup s)))"
    and "trace (snd (cleanup s)) =
           trace s @ [Writebytes [write_command s, reg_value GPIOA, 0x00]]"
  using assms
  by (simp_all add: cleanup_def cleanup_body_def then_do_def write_register_def
        build_command_def spi_writebytes_def write_command_def)

section \<open>The claims\<close>

subsection \<open>Register frames\<close>

text \<open>
  Claim C3. For every register and data byte, \<open>_write_register\<close> hands the handle
  exactly one frame, \<open>[command, address, data]\<close> with
  \<open>command = 0x40 | (chip_select << 1) | 0\<close> and \<open>address\<close> the register's code;
  \<open>_read_register\<close> hands it exactly one frame \<open>[command, address, 0x00]\<close> whose
  command has bit 0 set, and, when the transfer goes through and gives back three
  bytes, returns the third of them.
\<close>

theorem register_frames:
  "trace (snd (write_register s register data)) =
     trace s @ [Writebytes [(0x40 OR push_bit 1 (chip_select s)) OR 0,
                            reg_value register, data]]
   \<and> trace (snd (read_register s register)) =
     trace s @ [Xfer2 [(0x40 OR push_bit 1 (chip_select s)) OR 1,
                       reg_value register, 0x00]]
   \<and> bit ((0x40 OR push_bit 1 (chip_select s)) OR 1) 0
   \<and> (is_open (spi s) \<and> \<not> next_fault (spi s)
        \<and> length (reply (spi s) [(0x40 OR push_bit 1 (chip_select s)) OR 1,
                                  reg_value register, 0x00]) = 3
      \<longrightarrow> fst (read_register s register) =
            Inr (reply (spi s) [(0x40 OR push_bit 1 (chip_select s)) OR 1,
                                reg_value register, 0x00] ! 2))"
  by (simp add: write_register_def read_register_def build_command_def spi_xfer2_def
        Let_def bit_or_iff split: prod.splits)

theorem register_frames_witness:
  "is_open (spi answering_chip) \<and> \<not> next_fault (spi answering_chip)
   \<and> length (reply (spi answering_chip) [0x43, 0x13, 0x00]) = 3
   \<and> trace (snd (write_register answering_chip GPIOB 0x81)) =
       [Writebytes [0x42, 0x13, 0x81]]
   \<and> trace (snd (read_register answering_chip GPIOB)) = [Xfer2 [0x43, 0x13, 0x00]]
   \<and> fst (read_register answering_chip GPIOB) = Inr 0x5A"
  using register_frames [of answering_chip GPIOB "0x81"]
  by (simp add: answering_chip_def fresh_chip_def idle_handle_def next_fault_def)

subsection \<open>The cached byte after a failed write\<close>

text \<open>
  Claim C1, as stated, fails: on a handle whose next call raises, \<open>set_pin_high\<close> on
  pin 0 of port A raises, and the cached byte of port A, 0 before the call, is 1 after
  it. The cache is assigned before the write and nothing restores it.
\<close>

theorem set_pin_rollback_counterexample:
  "fst (set_pin_high faulty_chip ''A'' 0) = Inl TransportError
   \<and> port_a_state faulty_chip = 0
   \<and> port_a_state (snd (set_pin_high faulty_chip ''A'' 0)) = 1"
  by (simp add: eval_defs)

text \<open>
  Claim C1, amended. For every valid port and pin, \<open>set_pin_high\<close> and
  \<open>set_pin_low\<close> leave the cached byte of the port at the new value
  (\<open>shadow | (1 << pin)\<close>, \<open>shadow & ~(1 << pin)\<close>) whether or not the write goes
  through. When the write goes through, the call returns and the GPIO register of the
  port holds the cached byte; when it raises, the error reaches the caller, the
  registers are as before, and the cached byte is the new one all the same.
\<close>

theorem set_pin_shadow_before_write:
  assumes "upper port \<in> set [''A'', ''B'']" and "0 \<le> pin" and "pin \<le> 7"
  shows "shadow (snd (set_pin_high s port pin)) port = shadow s port OR push_bit (nat pin) 1
       \<and> shadow (snd (set_pin_low s port pin)) port =
           shadow s port AND NOT (push_bit (nat pin) 1)
       \<and> (is_open (spi s) \<and> \<not> next_fault (spi s) \<longrightarrow>
             fst (set_pin_high s port pin) = Inr ()
           \<and> regs (spi (snd (set_pin_high s port pin))) (reg_value (gpio port)) =
               shadow (snd (set_pin_high s port pin)) port
           \<and> fst (set_pin_low s port pin) = Inr ()
           \<and> regs (spi (snd (set_pin_low s port pin))) (reg_value (gpio port)) =
               shadow (snd (set_pin_low s port pin)) port)
       \<and> (\<not> (is_open (spi s) \<and> \<not> next_fault (spi s)) \<longrightarrow>
             fst (set_pin_high s port pin) = Inl TransportError
           \<and> regs (spi (snd (set_pin_high s port pin))) = regs (spi s)
           \<and> fst (set_pin_low s port pin) = Inl TransportError
           \<and> regs (spi (snd (set_pin_low s port pin))) = regs (spi s))"
proof -
  from assms(1) have p: "upper port = ''A'' \<or> upper port = ''B''" by simp
  note r = assms(2,3)
  show ?thesis
    using set_pin_high_shadow(1)[OF p r, of s] set_pin_low_shadow(1)[OF p r, of s]
      set_pin_high_ok(1,3)[OF p r accepts_one] set_pin_low_ok(1,3)[OF p r accepts_one]
      set_pin_high_fail[OF p r, of s] set_pin_low_fail[OF p r, of s]
    by (simp del: push_bit_of_1)
qed

theorem set_pin_shadow_before_write_witness:
  "upper ''A'' \<in> set [''A'', ''B''] \<and> (0::int) \<le> 0 \<and> (0::int) \<le> 7
   \<and> \<not> (is_open (spi faulty_chip) \<and> \<not> next_fault (spi faulty_chip))
   \<and> fst (set_pin_high faulty_chip ''A'' 0) = Inl TransportError
   \<and> shadow (snd (set_pin_high faulty_chip ''A'' 0)) ''A'' = 1
   \<and> regs (spi (snd (set_pin_high faulty_chip ''A'' 0))) (reg_value (gpio ''A'')) = 0
   \<and> is_open (spi fresh_chip) \<and> \<not> next_fault (spi fresh_chip)
   \<and> fst (set_pin_high fresh_chip ''A'' 0) = Inr ()
   \<and> regs (spi (snd (set_pin_high fresh_chip ''A'' 0))) (reg_value (gpio ''A'')) = 1"
  using set_pin_shadow_before_write [of "''A''" 0 faulty_chip]
    set_pin_shadow_before_write [of "''A''" 0 fresh_chip]
  by (simp add: eval_defs shadow_def gpio_def)

subsection \<open>Pins and the cached port byte\<close>

text \<open>
  Claim C7. For every valid port and pin, when \<open>set_pin_high\<close> returns, the byte
  \<open>get_port_state\<close> then returns for that port has the bit of the pin set; when
  \<open>set_pin_low\<close> returns, it has the bit clear; and \<open>get_port_state\<close> leaves the
  whole object, the handle and the history included, as it was.
\<close>

theorem set_pin_then_get_port_state:
  assumes "upper port \<in> set [''A'', ''B'']" and "0 \<le> pin" and "pin \<le> 7"
  shows "(set_pin_high s port pin = (Inr (), s') \<longrightarrow>
           (\<exists>v. get_port_state s' port = (Inr v, s') \<and> bit v (nat pin)))
       \<and> (set_pin_low s port pin = (Inr (), s') \<longrightarrow>
           (\<exists>v. get_port_state s' port = (Inr v, s') \<and> \<not> bit v (nat pin)))
       \<and> snd (get_port_state s' port) = s'"
proof -
  from assms(1) have p: "upper port = ''A'' \<or> upper port = ''B''" by simp
  have high: "bit (shadow (snd (set_pin_high s port pin)) port) (nat pin)"
    by (simp only: set_pin_high_shadow(1)[OF p assms(2,3)] bit_set_pin)
  have low: "\<not> bit (shadow (snd (set_pin_low s port pin)) port) (nat pin)"
    by (simp only: set_pin_low_shadow(1)[OF p assms(2,3)] bit_clear_pin not_False_eq_True)
  show ?thesis
    using high low by (auto simp: get_port_state_eq[OF p] get_port_state_pure)
qed

theorem set_pin_then_get_port_state_witness:
  "upper ''a'' \<in> set [''A'', ''B''] \<and> (0::int) \<le> 3 \<and> (3::int) \<le> 7
   \<and> fst (set_pin_high fresh_chip ''a'' 3) = Inr ()
   \<and> fst (get_port_state (snd (set_pin_high fresh_chip ''a'' 3)) ''a'') = Inr 8
   \<and> fst (set_pin_low (snd (set_pin_high fresh_chip ''a'' 3)) ''a'' 3) = Inr ()
   \<and> fst (get_port_state
            (snd (set_pin_low (snd (set_pin_high fresh_chip ''a'' 3)) ''a'' 3)) ''a'') = Inr 0"
  using
    set_pin_then_get_port_state
      [of "''a''" 3 fresh_chip "snd (set_pin_high fresh_chip ''a'' 3)"]
    set_pin_then_get_port_state
      [of "''a''" 3 "snd (set_pin_high fresh_chip ''a'' 3)"
          "snd (set_pin_low (snd (set_pin_high fresh_chip ''a'' 3)) ''a'' 3)"]
  by (simp add: eval_defs)

text \<open>
  Claim C8. For every valid port and pin, when two calls of \<open>toggle_pin\<close> in a row
  both return, the cached bytes of both ports are what they were before the first, and
  each call returns the negation of the cached level of the pin before it, which is the
  cached level of the pin after it.
\<close>

theorem toggle_pin_twice:
  assumes "upper port \<in> set [''A'', ''B'']" and "0 \<le> pin" and "pin \<le> 7"
    and "toggle_pin s port pin = (Inr b1, s1)"
    and "toggle_pin s1 port pin = (Inr b2, s2)"
  shows "port_a_state s2 = port_a_state s \<and> port_b_state s2 = port_b_state s
       \<and> b1 = (\<not> bit (shadow s port) (nat pin)) \<and> bit (shadow s1 port) (nat pin) = b1
       \<and> b2 = (\<not> bit (shadow s1 port) (nat pin)) \<and> bit (shadow s2 port) (nat pin) = b2"
proof -
  from assms(1) have p: "upper port = ''A'' \<or> upper port = ''B''" by simp
  note r = assms(2,3)
  note t1 = toggle_pin_step[OF p r assms(4)]
  note t2 = toggle_pin_step[OF p r assms(5)]
  have sh: "shadow s2 port = shadow s port"
  proof (cases "bit (shadow s port) (nat pin)")
    case True
    then have "\<not> bit (shadow s1 port) (nat pin)" using t1(1,2) by simp
    then have "shadow s2 port = shadow s1 port OR push_bit (nat pin) 1" by (rule t2(4))
    also have "shadow s1 port = shadow s port AND NOT (push_bit (nat pin) 1)"
      using True by (rule t1(3))
    finally show ?thesis by (simp only: clear_then_set[OF True])
  next
    case False
    then have "bit (shadow s1 port) (nat pin)" using t1(1,2) by simp
    then have "shadow s2 port = shadow s1 port AND NOT (push_bit (nat pin) 1)" by (rule t2(3))
    also have "shadow s1 port = shadow s port OR push_bit (nat pin) 1"
      using False by (rule t1(4))
    finally show ?thesis by (simp only: set_then_clear[OF False])
  qed
  have a: "port_a_state s2 = port_a_state s"
  proof (cases "upper port = ''A''")
    case True
    then show ?thesis using sh by (simp add: shadow_def)
  next
    case False
    then show ?thesis using t1(5) t2(5) by simp
  qed
  have b: "port_b_state s2 = port_b_state s"
  proof (cases "upper port = ''A''")
    case True
    then show ?thesis using t1(6) t2(6) by simp
  next
    case False
    then show ?thesis using sh by (simp add: shadow_def)
  qed
  show ?thesis using a b t1(1,2) t2(1,2) by simp
qed

theorem toggle_pin_twice_witness:
  "upper ''B'' \<in> set [''A'', ''B''] \<and> (0::int) \<le> 5 \<and> (5::int) \<le> 7
   \<and> fst (toggle_pin fresh_chip ''B'' 5) = Inr True
   \<and> fst (toggle_pin (snd (toggle_pin fresh_chip ''B'' 5)) ''B'' 5) = Inr False
   \<and> port_b_state (snd (toggle_pin fresh_chip ''B'' 5)) = 32
   \<and> port_b_state (snd (toggle_pin (snd (toggle_pin fresh_chip ''B'' 5)) ''B'' 5)) =
       port_b_state fresh_chip"
  using toggle_pin_twice
      [of "''B''" 5 fresh_chip True "snd (toggle_pin fresh_chip ''B'' 5)" False
          "snd (toggle_pin (snd (toggle_pin fresh_chip ''B'' 5)) ''B'' 5)"]
  by (simp add: eval_defs)

subsection \<open>Matrix presses\<close>

text \<open>
  Claim C5. For every row and column with the row negative or at least \<open>num_rows\<close>,
  or the column negative or at least \<open>num_cols\<close>, \<open>press_button\<close> raises
  \<open>ValueError\<close> and leaves the controller as it was: nothing reached the handle and
  both cached port bytes are unchanged.
\<close>

theorem press_button_invalid_position:
  assumes "row < 0 \<or> num_rows m \<le> row \<or> col < 0 \<or> num_cols m \<le> col"
  shows "press_button m row col duration = (Inl ValueError, m)"
  using assms by (auto simp: press_button_def)

theorem press_button_invalid_position_witness:
  "((4::int) < 0 \<or> num_rows keypad_4x4 \<le> 4 \<or> (0::int) < 0 \<or> num_cols keypad_4x4 \<le> 0)
   \<and> press_button keypad_4x4 4 0 0.1 = (Inl ValueError, keypad_4x4)"
  using press_button_invalid_position [of 4 keypad_4x4 0 "0.1"]
  by (simp add: keypad_4x4_def)





text \<open>
  Claim C2 does not hold of the code. \<open>press_sequence\<close> goes to
  \<open>matrix_sequence\<close> and \<open>pulse_row_column\<close> and never compares a position with
  \<open>num_rows\<close> and \<open>num_cols\<close>, the check that \<open>press_button\<close> makes. On the 4x4
  matrix the position (5, 5) is refused by \<open>press_button\<close> and pressed by
  \<open>press_sequence\<close>, which returns without an error.
\<close>

theorem press_sequence_skips_matrix_check:
  "press_button keypad_4x4 5 5 0.1 = (Inl ValueError, keypad_4x4)
   \<and> fst (press_sequence keypad_4x4 [(5, 5)] 0.1 0.2) = Inr ()
   \<and> trace (mcp (snd (press_sequence keypad_4x4 [(5, 5)] 0.1 0.2))) =
       [Writebytes [0x40, 0x12, 0x20], Writebytes [0x40, 0x13, 0x20], Sleep 0.1,
        Writebytes [0x40, 0x12, 0x00], Writebytes [0x40, 0x13, 0x00]]"
  by (simp add: eval_defs press_eval press_sequence_def matrix_sequence_def)

text \<open>
  A position whose column is no pin at all is stopped by the pin check of
  \<open>set_pin_high\<close>, but only after the row pin has been written high: the sequence
  ends with \<open>ValueError\<close>, one write made and the row bit left set in the cache.
\<close>

lemma press_sequence_stops_mid_press:
  "fst (press_sequence keypad_4x4 [(0, 9), (1, 1)] 0.1 0.2) = Inl ValueError
   \<and> trace (mcp (snd (press_sequence keypad_4x4 [(0, 9), (1, 1)] 0.1 0.2))) =
       [Writebytes [0x40, 0x12, 0x01]]
   \<and> port_a_state (mcp (snd (press_sequence keypad_4x4 [(0, 9), (1, 1)] 0.1 0.2))) = 1"
  by (simp add: eval_defs press_eval press_sequence_def matrix_sequence_def)

subsection \<open>Shutdown\<close>

text \<open>
  Claim C9. \<open>cleanup\<close> never raises, the first time or the second. On a handle that
  is open and lets three calls through, whatever the cached bytes are, it writes 0x00 to
  GPIOA, then 0x00 to GPIOB, then closes the handle: both GPIO registers hold 0x00 and
  the handle is closed. A second \<open>cleanup\<close> right after it returns as well and leaves
  the registers (0x00 on both ports), the closed handle and the cached bytes as the
  first left them.
\<close>

theorem cleanup_idempotent:
  "fst (cleanup s) = Inr ()
   \<and> fst (cleanup (snd (cleanup s))) = Inr ()
   \<and> (accepts (spi s) 3 \<longrightarrow>
        trace (snd (cleanup s)) =
          trace s @ [Writebytes [write_command s, reg_value GPIOA, 0x00],
                     Writebytes [write_command s, reg_value GPIOB, 0x00], Close]
      \<and> regs (spi (snd (cleanup s))) (reg_value GPIOA) = 0x00
      \<and> regs (spi (snd (cleanup s))) (reg_value GPIOB) = 0x00
      \<and> \<not> is_open (spi (snd (cleanup s)))
      \<and> regs (spi (snd (cleanup (snd (cleanup s))))) = regs (spi (snd (cleanup s)))
      \<and> \<not> is_open (spi (snd (cleanup (snd (cleanup s)))))
      \<and> port_a_state (snd (cleanup (snd (cleanup s)))) = port_a_state (snd (cleanup s))
      \<and> port_b_state (snd (cleanup (snd (cleanup s)))) = port_b_state (snd (cleanup s)))"
proof -
  have "regs (spi (snd (cleanup s))) (reg_value GPIOA) = 0x00
      \<and> regs (spi (snd (cleanup s))) (reg_value GPIOB) = 0x00"
    if "accepts (spi s) 3"
    using cleanup_open(2)[OF that] by simp
  then show ?thesis
    using cleanup_never_raises cleanup_open(1,3)[of s]
      cleanup_closed(1,2)[of "snd (cleanup s)"] cleanup_frame(1,2)[of "snd (cleanup s)"]
    by blast
qed

theorem cleanup_idempotent_witness:
  "accepts (spi (snd (set_port fresh_chip ''A'' 0xA5))) 3
   \<and> trace (snd (cleanup (snd (set_port fresh_chip ''A'' 0xA5)))) =
       [Writebytes [0x40, 0x12, 0xA5], Writebytes [0x40, 0x12, 0x00],
        Writebytes [0x40, 0x13, 0x00], Close]
   \<and> regs (spi (snd (set_port fresh_chip ''A'' 0xA5))) 0x12 = 0xA5
   \<and> regs (spi (snd (cleanup (snd (set_port fresh_chip ''A'' 0xA5))))) 0x12 = 0x00
   \<and> regs (spi (snd (cleanup (snd (cleanup (snd (set_port fresh_chip ''A'' 0xA5)))))))
        0x12 = 0x00
   \<and> fst (cleanup (snd (cleanup (snd (set_port fresh_chip ''A'' 0xA5))))) = Inr ()"
  using cleanup_idempotent [of "snd (set_port fresh_chip ''A'' 0xA5)"]
  by (simp add: eval_defs cleanup_eval)

text \<open>
  Claim C10. \<open>cleanup\<close> leaves both cached bytes as they were. So, for a valid port
  on a handle that lets the three calls through, \<open>get_port_state\<close> after
  \<open>cleanup\<close> still returns the byte cached before it, while the GPIO register of the
  port holds 0x00: where the cached byte was not zero, the two differ.
\<close>

theorem cleanup_keeps_shadows:
  "port_a_state (snd (cleanup s)) = port_a_state s
   \<and> port_b_state (snd (cleanup s)) = port_b_state s
   \<and> (upper port \<in> set [''A'', ''B''] \<and> accepts (spi s) 3 \<longrightarrow>
        fst (get_port_state (snd (cleanup s)) port) = Inr (shadow s port)
      \<and> regs (spi (snd (cleanup s))) (reg_value (gpio port)) = 0x00)"
proof -
  have "regs (spi (snd (cleanup s))) (reg_value (gpio port)) = 0x00"
    if "accepts (spi s) 3"
    using cleanup_open(2)[OF that] by (simp add: gpio_def)
  moreover have "fst (get_port_state (snd (cleanup s)) port) = Inr (shadow s port)"
    if "upper port \<in> set [''A'', ''B'']"
    using that cleanup_frame(1,2)[of s] by (auto simp: get_port_state_def shadow_def)
  ultimately show ?thesis
    using cleanup_frame(1,2)[of s] by blast
qed

theorem cleanup_keeps_shadows_witness:
  "upper ''A'' \<in> set [''A'', ''B'']
   \<and> accepts (spi (snd (set_port fresh_chip ''A'' 0xA5))) 3
   \<and> fst (get_port_state (snd (cleanup (snd (set_port fresh_chip ''A'' 0xA5)))) ''A'') =
       Inr 0xA5
   \<and> regs (spi (snd (cleanup (snd (set_port fresh_chip ''A'' 0xA5)))))
        (reg_value (gpio ''A'')) = 0x00
   \<and> port_a_state (snd (cleanup (snd (set_port fresh_chip ''A'' 0xA5)))) = 0xA5"
  using cleanup_keeps_shadows [of "snd (set_port fresh_chip ''A'' 0xA5)" "''A''"]
  by (simp add: eval_defs cleanup_eval)

end
